theory Spec2Isabelle
  imports Main "HOL-Library.Word"
begin

section \<open>Python values seen by the handlers of main.py\<close>

text \<open>
  A Python \<open>str\<close> is a sequence of Unicode code points; slicing (\<open>s[:50]\<close>) and
  \<open>len\<close> count code points. The status texts of the diagnostic route start with
  symbols beyond ASCII, so a string is modelled as the list of its code points.
  \<open>ascii\<close> turns an ASCII literal into such a list.
\<close>

type_synonym pystr = "nat list"

definition ascii :: "string \<Rightarrow> pystr" where
  "ascii s = map of_char s"

text \<open>The three symbols used by \<open>test_database\<close>: U+2705, U+274C and U+26A0 U+FE0F.\<close>

definition CHECK_MARK :: pystr where
  "CHECK_MARK = [0x2705]"

definition CROSS_MARK :: pystr where
  "CROSS_MARK = [0x274C]"

definition WARNING_SIGN :: pystr where
  "WARNING_SIGN = [0x26A0, 0xFE0F]"

text \<open>
  Field values of the documents the handlers move around: \<open>None\<close>, \<open>bool\<close>,
  \<open>int\<close>, \<open>str\<close>, and the store's \<open>ObjectId\<close>, a 12-byte value.
\<close>

datatype pyval =
    PNone
  | PBool bool
  | PInt int
  | PStr pystr
  | PObjectId "96 word"

text \<open>A \<open>dict\<close> keeps insertion order and has each key once: an association list.\<close>

type_synonym pydict = "(pystr \<times> pyval) list"

subsection \<open>The builtin \<open>str\<close>\<close>

definition digit_char :: "nat \<Rightarrow> nat" where
  "digit_char d = (if d < 10 then 48 + d else 87 + d)"

fun digits :: "nat \<Rightarrow> nat \<Rightarrow> nat \<Rightarrow> pystr" where
  "digits b 0 n = []"
| "digits b (Suc k) n = digits b k (n div b) @ [digit_char (n mod b)]"

function str_nat :: "nat \<Rightarrow> pystr" where
  "str_nat n = (if n < 10 then [digit_char n] else str_nat (n div 10) @ [digit_char (n mod 10)])"
  by pat_completeness auto
termination
  by (relation "measure (\<lambda>n. n)") auto

definition str_int :: "int \<Rightarrow> pystr" where
  "str_int i = (if i < 0 then 45 # str_nat (nat (- i)) else str_nat (nat i))"

text \<open>\<open>str(ObjectId)\<close> is the 24-digit lower-case hexadecimal form of the 12 bytes.\<close>

fun py_str :: "pyval \<Rightarrow> pystr" where
  "py_str PNone = ascii ''None''"
| "py_str (PBool b) = (if b then ascii ''True'' else ascii ''False'')"
| "py_str (PInt i) = str_int i"
| "py_str (PStr s) = s"
| "py_str (PObjectId w) = digits 16 24 (unat w)"

subsection \<open>Dictionary operations\<close>

text \<open>\<open>d.get(k)\<close>: the value under \<open>k\<close>, \<open>None\<close> when the key is absent.\<close>

definition dict_get :: "pydict \<Rightarrow> pystr \<Rightarrow> pyval" where
  "dict_get d k = (case map_of d k of None \<Rightarrow> PNone | Some v \<Rightarrow> v)"

text \<open>\<open>d[k] = v\<close>: replaces the value in place when the key is there, appends otherwise.\<close>

fun dict_set :: "pydict \<Rightarrow> pystr \<Rightarrow> pyval \<Rightarrow> pydict" where
  "dict_set [] k v = [(k, v)]"
| "dict_set ((k', v') # d) k v = (if k' = k then (k, v) # d else (k', v') # dict_set d k v)"

section \<open>The inquiry listing: \<open>normalize\<close> of \<open>list_inquiries\<close>\<close>

text \<open>
  \<^verbatim>\<open>
  def normalize(doc):
      d = {k: v for k, v in doc.items() if k != "_id"}
      d["id"] = str(doc.get("_id"))
      return d
  \<close>
\<close>

definition normalize_doc :: "pydict \<Rightarrow> pydict" where
  "normalize_doc doc =
     (let d = filter (\<lambda>(k, v). k \<noteq> ascii ''_id'') doc
      in dict_set d (ascii ''id'') (PStr (py_str (dict_get doc (ascii ''_id'')))))"

section \<open>Exceptions and what a handler hands to the framework\<close>

text \<open>
  What the code called by the handlers can raise: an \<open>ImportError\<close>, or another
  exception derived from \<open>Exception\<close>; the two are kept apart because
  \<open>test_database\<close> has an \<open>except ImportError\<close> clause in front of its
  \<open>except Exception\<close> clause. Each carries the text \<open>str(e)\<close> gives.
\<close>

datatype exn = ImportError pystr | Exception pystr

fun exn_str :: "exn \<Rightarrow> pystr" where
  "exn_str (ImportError m) = m"
| "exn_str (Exception m) = m"

text \<open>
  A handler either returns a value or lets an exception out: the \<open>HTTPException\<close> it
  raises itself, or one it did not catch.
\<close>

datatype raised = HTTPException nat pystr | Unhandled exn

section \<open>The static menu catalog\<close>

record MenuItem =
  item_id :: pystr
  name :: pystr
  description :: pystr
  image_url :: pystr
  category :: pystr

record MenuCategory =
  key :: pystr
  title :: pystr
  items :: "MenuItem list"

definition MENU_DATA :: "MenuCategory list" where
  "MENU_DATA = [
    \<lparr>key = ascii ''african'',
     title = ascii ''African Delights'',
     items =
      [
       \<lparr>item_id = ascii ''puff-puff'',
        name = ascii ''Puff Puff'',
        description = ascii ''Golden, fluffy bites lightly dusted with sugar.'',
        image_url = ascii ''https://images.unsplash.com/photo-1617191518205-29c76d7d6672?q=80&w=1400&auto=format&fit=crop'',
        category = ascii ''African Delights''\<rparr>,
       \<lparr>item_id = ascii ''akara'',
        name = ascii ''Akara'',
        description = ascii ''Crisp bean fritters with a soft, fragrant center.'',
        image_url = ascii ''https://images.unsplash.com/photo-1604908553982-57e1bdf4cf0f?q=80&w=1400&auto=format&fit=crop'',
        category = ascii ''African Delights''\<rparr>,
       \<lparr>item_id = ascii ''fried-yam'',
        name = ascii ''Fried Yam'',
        description = ascii ''Hearty yam chips, golden and perfectly seasoned.'',
        image_url = ascii ''https://images.unsplash.com/photo-1547592180-85f173990554?q=80&w=1400&auto=format&fit=crop'',
        category = ascii ''African Delights''\<rparr>,
       \<lparr>item_id = ascii ''plantain'',
        name = ascii ''Plantain'',
        description = ascii ''Sweet ripe plantain slices, caramelized to perfection.'',
        image_url = ascii ''https://images.unsplash.com/photo-1543332164-6e82f355badc?q=80&w=1400&auto=format&fit=crop'',
        category = ascii ''African Delights''\<rparr>
      ]\<rparr>,
    \<lparr>key = ascii ''pastries'',
     title = ascii ''Savory Pastries & Rolls'',
     items =
      [
       \<lparr>item_id = ascii ''samosa'',
        name = ascii ''Samosa'',
        description = ascii ''Crisp pastry stuffed with spiced vegetables or meat.'',
        image_url = ascii ''https://images.unsplash.com/photo-1683021712492-27cf3ad5f222?q=80&w=1400&auto=format&fit=crop'',
        category = ascii ''Savory Pastries & Rolls''\<rparr>,
       \<lparr>item_id = ascii ''spring-rolls'',
        name = ascii ''Spring Rolls'',
        description = ascii ''Delicate rolls with a vibrant vegetable filling.'',
        image_url = ascii ''https://images.unsplash.com/photo-1512058564366-18510be2db19?q=80&w=1400&auto=format&fit=crop'',
        category = ascii ''Savory Pastries & Rolls''\<rparr>,
       \<lparr>item_id = ascii ''meat-pie'',
        name = ascii ''Meat Pie'',
        description = ascii ''Buttery pastry with a rich, savory filling.'',
        image_url = ascii ''https://images.unsplash.com/photo-1541781286675-7b3c9817e3d5?q=80&w=1400&auto=format&fit=crop'',
        category = ascii ''Savory Pastries & Rolls''\<rparr>,
       \<lparr>item_id = ascii ''fish-roll'',
        name = ascii ''Fish Roll'',
        description = ascii ''Flaky pastry embracing spiced fish.'',
        image_url = ascii ''https://images.unsplash.com/photo-1541781774459-bb2af2f05b55?q=80&w=1400&auto=format&fit=crop'',
        category = ascii ''Savory Pastries & Rolls''\<rparr>,
       \<lparr>item_id = ascii ''chicken-roll'',
        name = ascii ''Chicken Roll'',
        description = ascii ''Tender chicken seasoned and wrapped in golden pastry.'',
        image_url = ascii ''https://images.unsplash.com/photo-1543336661-08fc734e01d2?q=80&w=1400&auto=format&fit=crop'',
        category = ascii ''Savory Pastries & Rolls''\<rparr>
      ]\<rparr>,
    \<lparr>key = ascii ''global'',
     title = ascii ''Global Favourites'',
     items =
      [
       \<lparr>item_id = ascii ''potato-swirls'',
        name = ascii ''Potato Swirls'',
        description = ascii ''Fun, crispy swirls with a fluffy potato center.'',
        image_url = ascii ''https://images.unsplash.com/photo-1551183053-bf91a1d81141?q=80&w=1400&auto=format&fit=crop'',
        category = ascii ''Global Favourites''\<rparr>
      ]\<rparr>
  ]"

section \<open>The process state\<close>

text \<open>
  The object \<open>db\<close> of the database module as \<open>test_database\<close> uses it: the
  attribute \<open>name\<close> (absent, raising when read, or a value) and the outcome of
  \<open>list_collection_names()\<close>.
\<close>

record db_handle =
  name_attr :: "(exn + pyval) option"
  list_collection_names :: "exn + pystr list"

text \<open>
  Everything a request can read or change: the module global \<open>MENU_DATA\<close>, the state
  behind the database module (of a type \<open>'s\<close> the handlers never look into), the outcome
  of \<open>from database import db\<close> (an exception, \<open>None\<close>, or a handle), and the
  process environment.
\<close>

record 's world =
  menu_data :: "MenuCategory list"
  store_state :: 's
  database_module :: "exn + db_handle option"
  environ :: "pystr \<rightharpoonup> pystr"

text \<open>
  \<open>database.py\<close> and \<open>schemas.py\<close> are not part of the sources at hand. The
  handlers take \<open>create_document\<close>, \<open>get_documents\<close> and the \<open>Inquiry\<close>
  validation as parameters: a call runs on the store state and gives a result or an
  exception, and the state after it.
\<close>

type_synonym ('s, 'a) store_call = "'s \<Rightarrow> (exn + 'a) \<times> 's"

type_synonym 's create_document_fn = "pystr \<Rightarrow> pydict \<Rightarrow> ('s, pyval) store_call"

type_synonym 's get_documents_fn = "pystr \<Rightarrow> int \<Rightarrow> ('s, pydict list) store_call"

type_synonym schema = "pydict \<Rightarrow> pystr list + pydict"

section \<open>The handlers\<close>

definition read_root :: "'s world \<Rightarrow> (raised + pystr) \<times> 's world" where
  "read_root w = (Inr (ascii ''Hello from FastAPI Backend!''), w)"

definition hello :: "'s world \<Rightarrow> (raised + pystr) \<times> 's world" where
  "hello w = (Inr (ascii ''Hello from the backend API!''), w)"

subsection \<open>\<open>test_database\<close>\<close>

record test_response =
  backend :: pystr
  database :: pystr
  database_url :: pyval
  database_name :: pyval
  connection_status :: pystr
  collections :: "pystr list"

text \<open>The dictionary built by lines 31 to 38.\<close>

definition response0 :: test_response where
  "response0 =
     \<lparr>backend = CHECK_MARK @ ascii '' Running'',
      database = CROSS_MARK @ ascii '' Not Available'',
      database_url = PNone,
      database_name = PNone,
      connection_status = ascii ''Not Connected'',
      collections = []\<rparr>"

text \<open>
  The body of the outer \<open>try\<close> (lines 41 to 56). An assignment made before an exception
  stays made, so the block gives the dictionary as it stands when the block is left, and
  the exception that left it, if any. The inner \<open>try\<close> around
  \<open>list_collection_names\<close> catches everything itself.
\<close>

definition try_block :: "(exn + db_handle option) \<Rightarrow> test_response \<Rightarrow> test_response \<times> exn option" where
  "try_block imported response =
     (case imported of
        Inl e \<Rightarrow> (response, Some e)
      | Inr None \<Rightarrow>
          (response\<lparr>database := WARNING_SIGN @ ascii ''  Available but not initialized''\<rparr>, None)
      | Inr (Some db) \<Rightarrow>
          (let r1 = response\<lparr>database := CHECK_MARK @ ascii '' Available'',
                             database_url := PStr (CHECK_MARK @ ascii '' Configured'')\<rparr>
           in case name_attr db of
                Some (Inl e) \<Rightarrow> (r1, Some e)
              | attr \<Rightarrow>
                  (let r2 = r1\<lparr>database_name :=
                                   (case attr of
                                      Some (Inr v) \<Rightarrow> v
                                    | _ \<Rightarrow> PStr (CHECK_MARK @ ascii '' Connected'')),
                                 connection_status := ascii ''Connected''\<rparr>
                   in case list_collection_names db of
                        Inr cs \<Rightarrow>
                          (r2\<lparr>collections := take 10 cs,
                              database := CHECK_MARK @ ascii '' Connected & Working''\<rparr>, None)
                      | Inl e \<Rightarrow>
                          (r2\<lparr>database := WARNING_SIGN @ ascii ''  Connected but Error: ''
                                              @ take 50 (exn_str e)\<rparr>, None))))"

text \<open>The two \<open>except\<close> clauses of the outer \<open>try\<close>, in the order of the source.\<close>

definition except_clauses :: "test_response \<times> exn option \<Rightarrow> test_response" where
  "except_clauses p =
     (case p of
        (response, None) \<Rightarrow> response
      | (response, Some (ImportError m)) \<Rightarrow>
          response\<lparr>database := CROSS_MARK
                      @ ascii '' Database module not found (run enable-database first)''\<rparr>
      | (response, Some (Exception m)) \<Rightarrow>
          response\<lparr>database := CROSS_MARK @ ascii '' Error: '' @ take 50 m\<rparr>)"

text \<open>\<open>os.getenv(k)\<close> and Python's truth value of an object.\<close>

definition getenv :: "(pystr \<rightharpoonup> pystr) \<Rightarrow> pystr \<Rightarrow> pyval" where
  "getenv env k = (case env k of None \<Rightarrow> PNone | Some s \<Rightarrow> PStr s)"

fun truthy :: "pyval \<Rightarrow> bool" where
  "truthy PNone = False"
| "truthy (PBool b) = b"
| "truthy (PInt i) = (i \<noteq> 0)"
| "truthy (PStr s) = (s \<noteq> [])"
| "truthy (PObjectId w) = True"

definition test_database :: "'s world \<Rightarrow> (raised + test_response) \<times> 's world" where
  "test_database w =
     (let response = except_clauses (try_block (database_module w) response0);
          response = response\<lparr>database_url :=
            PStr (if truthy (getenv (environ w) (ascii ''DATABASE_URL''))
                  then CHECK_MARK @ ascii '' Set'' else CROSS_MARK @ ascii '' Not Set'')\<rparr>;
          response = response\<lparr>database_name :=
            PStr (if truthy (getenv (environ w) (ascii ''DATABASE_NAME''))
                  then CHECK_MARK @ ascii '' Set'' else CROSS_MARK @ ascii '' Not Set'')\<rparr>
      in (Inr response, w))"

subsection \<open>\<open>get_menu\<close>, \<open>create_inquiry\<close>, \<open>list_inquiries\<close>\<close>

definition get_menu :: "'s world \<Rightarrow> (raised + MenuCategory list) \<times> 's world" where
  "get_menu w = (Inr (menu_data w), w)"

definition create_inquiry ::
  "'s create_document_fn \<Rightarrow> pydict \<Rightarrow> 's world \<Rightarrow> (raised + pydict) \<times> 's world" where
  "create_inquiry create_doc inquiry w =
     (case create_doc (ascii ''inquiry'') inquiry (store_state w) of
        (Inr inserted_id, s) \<Rightarrow>
          (Inr [(ascii ''status'', PStr (ascii ''ok'')), (ascii ''id'', inserted_id)],
           w\<lparr>store_state := s\<rparr>)
      | (Inl e, s) \<Rightarrow> (Inl (HTTPException 500 (exn_str e)), w\<lparr>store_state := s\<rparr>))"

text \<open>The parameter \<open>limit: int = 10\<close>: \<open>None\<close> stands for a call without it.\<close>

definition list_inquiries ::
  "'s get_documents_fn \<Rightarrow> int option \<Rightarrow> 's world \<Rightarrow> (raised + pydict list) \<times> 's world" where
  "list_inquiries get_docs limit_arg w =
     (let limit = (case limit_arg of None \<Rightarrow> 10 | Some n \<Rightarrow> n)
      in case get_docs (ascii ''inquiry'') limit (store_state w) of
           (Inr docs, s) \<Rightarrow> (Inr (map normalize_doc docs), w\<lparr>store_state := s\<rparr>)
         | (Inl e, s) \<Rightarrow> (Inl (HTTPException 500 (exn_str e)), w\<lparr>store_state := s\<rparr>))"

section \<open>The routes\<close>

text \<open>
  What the decorators \<open>@app.get\<close> and \<open>@app.post\<close> make of a handler: a returned
  value is sent with status 200, an \<open>HTTPException\<close> with its own status and its detail,
  any other exception as a plain 500. A value that cannot be written as JSON (an
  \<open>ObjectId\<close>) makes the encoding fail, which is again a plain 500. The body of
  \<open>POST /api/inquiries\<close> is validated against \<open>Inquiry\<close> before \<open>create_inquiry\<close>
  is entered; when validation fails the answer is 422 with the list of errors.
\<close>

datatype content =
    JMessage pystr
  | JTest test_response
  | JMenu "MenuCategory list"
  | JObject pydict
  | JArray "pydict list"
  | JDetail pystr
  | JValidation "pystr list"
  | InternalServerError

record http_response =
  status_code :: nat
  body :: content

fun jsonable :: "pyval \<Rightarrow> bool" where
  "jsonable (PObjectId w) = False"
| "jsonable v = True"

fun encodable :: "content \<Rightarrow> bool" where
  "encodable (JTest r) = (jsonable (database_url r) \<and> jsonable (database_name r))"
| "encodable (JObject d) = list_all (\<lambda>(k, v). jsonable v) d"
| "encodable (JArray ds) = list_all (list_all (\<lambda>(k, v). jsonable v)) ds"
| "encodable c = True"

definition respond :: "raised + content \<Rightarrow> http_response" where
  "respond r =
     (case r of
        Inr c \<Rightarrow>
          (if encodable c then \<lparr>status_code = 200, body = c\<rparr>
           else \<lparr>status_code = 500, body = InternalServerError\<rparr>)
      | Inl (HTTPException code detail) \<Rightarrow> \<lparr>status_code = code, body = JDetail detail\<rparr>
      | Inl (Unhandled e) \<Rightarrow> \<lparr>status_code = 500, body = InternalServerError\<rparr>)"

datatype request =
    GET_root
  | GET_api_hello
  | GET_test
  | GET_api_menu
  | POST_api_inquiries pydict
  | GET_api_inquiries "int option"

definition route :: "('a \<Rightarrow> content) \<Rightarrow> (raised + 'a) \<times> 's world \<Rightarrow> http_response \<times> 's world" where
  "route enc p = (case p of (r, w) \<Rightarrow> (respond (map_sum (\<lambda>e. e) enc r), w))"

fun handle ::
  "schema \<Rightarrow> 's create_document_fn \<Rightarrow> 's get_documents_fn \<Rightarrow> request \<Rightarrow> 's world
     \<Rightarrow> http_response \<times> 's world" where
  "handle Inq create_doc get_docs GET_root w = route JMessage (read_root w)"
| "handle Inq create_doc get_docs GET_api_hello w = route JMessage (hello w)"
| "handle Inq create_doc get_docs GET_test w = route JTest (test_database w)"
| "handle Inq create_doc get_docs GET_api_menu w = route JMenu (get_menu w)"
| "handle Inq create_doc get_docs (POST_api_inquiries payload) w =
     (case Inq payload of
        Inl errors \<Rightarrow> (\<lparr>status_code = 422, body = JValidation errors\<rparr>, w)
      | Inr inquiry \<Rightarrow> route JObject (create_inquiry create_doc inquiry w))"
| "handle Inq create_doc get_docs (GET_api_inquiries limit_arg) w =
     route JArray (list_inquiries get_docs limit_arg w)"

text \<open>A sequence of requests, one after the other, with the responses in order.\<close>

fun serve ::
  "schema \<Rightarrow> 's create_document_fn \<Rightarrow> 's get_documents_fn \<Rightarrow> request list \<Rightarrow> 's world
     \<Rightarrow> http_response list \<times> 's world" where
  "serve Inq create_doc get_docs [] w = ([], w)"
| "serve Inq create_doc get_docs (rq # rqs) w =
     (case handle Inq create_doc get_docs rq w of
        (resp, w1) \<Rightarrow>
          (case serve Inq create_doc get_docs rqs w1 of
             (resps, w2) \<Rightarrow> (resp # resps, w2)))"

section \<open>The document store adapter and the inquiry schema\<close>

text \<open>
  Modelled from the spec: the state behind \<open>database.py\<close>, which is absent. A store is
  healthy or in a failed state with a message (\<open>unavailable\<close> when the configuration
  is absent); it holds the documents of every collection in insertion order and hands
  out identifiers from a counter.
\<close>

record store =
  fault :: "pystr option"
  next_id :: "96 word"
  documents :: "(pystr \<times> pydict) list"

text \<open>
  Modelled from the spec: \<open>create_document\<close> of \<open>database.py\<close>, which is absent.
  It inserts one document into the named collection, under the identifier the store
  assigns to it, and fails with a store error when the store is unavailable. Its result
  is that identifier as the spec has \<open>POST /api/inquiries\<close> hand it out: normalized
  to its string form, once, at the adapter.
\<close>

definition create_document :: "store create_document_fn" where
  "create_document collection_name record s =
     (case fault s of
        Some m \<Rightarrow> (Inl (Exception m), s)
      | None \<Rightarrow>
          (let oid = PObjectId (next_id s)
           in (Inr (PStr (py_str oid)),
               s\<lparr>next_id := next_id s + 1,
                 documents := documents s @ [(collection_name, dict_set record (ascii ''_id'') oid)]\<rparr>)))"

text \<open>
  Modelled from the spec: \<open>get_documents\<close> of \<open>database.py\<close>, which is absent. Its
  result is a sequence of at most \<open>limit\<close> documents of the named collection (the spec
  asks for a non-negative \<open>limit\<close>; a negative one gives no document here); it fails
  with a store error when the store is unavailable.
\<close>

definition get_documents :: "store get_documents_fn" where
  "get_documents collection_name limit s =
     (case fault s of
        Some m \<Rightarrow> (Inl (Exception m), s)
      | None \<Rightarrow>
          (Inr (take (nat limit)
                  (map snd (filter (\<lambda>(c, d). c = collection_name) (documents s)))), s))"

text \<open>
  Modelled from the spec: the \<open>Inquiry\<close> schema of \<open>schemas.py\<close>, which is absent.
  The fields \<open>name\<close>, \<open>contact\<close> and \<open>message\<close> are strings; a field that is
  missing or of another type fails validation, with the names of the fields at fault.
\<close>

definition inquiry_fields :: "pystr list" where
  "inquiry_fields = [ascii ''name'', ascii ''contact'', ascii ''message'']"

fun is_str :: "pyval option \<Rightarrow> bool" where
  "is_str (Some (PStr s)) = True"
| "is_str v = False"

definition Inquiry :: schema where
  "Inquiry payload =
     (let errors = filter (\<lambda>f. \<not> is_str (map_of payload f)) inquiry_fields
      in if errors = [] then Inr (map (\<lambda>f. (f, dict_get payload f)) inquiry_fields)
         else Inl errors)"

text \<open>The process at start: the catalog as written in the source.\<close>

definition start :: "'s \<Rightarrow> (exn + db_handle option) \<Rightarrow> (pystr \<rightharpoonup> pystr) \<Rightarrow> 's world" where
  "start s imported env =
     \<lparr>menu_data = MENU_DATA, store_state = s, database_module = imported, environ = env\<rparr>"

section \<open>Example data\<close>

text \<open>
  The payload of the spec's example, stores in several states (empty, without
  configuration, after one insertion, holding a document that has no \<open>_id\<close>, holding
  twelve inquiries) and a database handle whose server cannot be reached.
\<close>

definition ada_payload :: pydict where
  "ada_payload =
     [(ascii ''name'', PStr (ascii ''Ada'')),
      (ascii ''contact'', PStr (ascii ''ada@example.com'')),
      (ascii ''message'', PStr (ascii ''Catering for 20''))]"

definition empty_store :: store where
  "empty_store = \<lparr>fault = None, next_id = 0, documents = []\<rparr>"

definition unconfigured_store :: store where
  "unconfigured_store = \<lparr>fault = Some (ascii ''unavailable''), next_id = 0, documents = []\<rparr>"

definition one_inquiry_store :: store where
  "one_inquiry_store = snd (create_document (ascii ''inquiry'') ada_payload empty_store)"

definition legacy_store :: store where
  "legacy_store = \<lparr>fault = None, next_id = 0, documents = [(ascii ''inquiry'', ada_payload)]\<rparr>"

definition twelve_store :: store where
  "twelve_store =
     \<lparr>fault = None, next_id = 12, documents = replicate 12 (ascii ''inquiry'', ada_payload)\<rparr>"

definition unreachable_db :: db_handle where
  "unreachable_db =
     \<lparr>name_attr = Some (Inr (PStr (ascii ''choppinzskys''))),
      list_collection_names =
        Inl (Exception (ascii ''localhost:27017: [Errno 111] Connection refused (configured timeouts: 30s)''))\<rparr>"

section \<open>Auxiliary facts\<close>

subsection \<open>Strings and dictionaries\<close>

lemma ascii_eq_iff [simp]: "ascii s = ascii t \<longleftrightarrow> s = t"
proof -
  have "inj (of_char :: char \<Rightarrow> nat)"
    by (rule injI) simp
  then have "inj (map (of_char :: char \<Rightarrow> nat))"
    by simp
  then show ?thesis
    unfolding ascii_def by (auto dest: injD)
qed

lemma ascii_Nil_iff [simp]: "ascii s = [] \<longleftrightarrow> s = []"
  by (simp add: ascii_def)

lemma length_ascii [simp]: "length (ascii s) = length s"
  by (simp add: ascii_def)

lemma length_digits [simp]: "length (digits b k n) = k"
  by (induction k arbitrary: n) auto

lemma map_of_dict_set: "map_of (dict_set d k v) = (map_of d)(k \<mapsto> v)"
  by (induction d) (auto simp: fun_eq_iff)

lemma map_of_filter_neq:
  "map_of (filter (\<lambda>(k, v). k \<noteq> a) d) k' = (if k' = a then None else map_of d k')"
  by (induction d) auto

lemma filter_dict_set:
  "\<not> P k \<Longrightarrow> filter (\<lambda>(k', v'). P k') (dict_set d k v) = filter (\<lambda>(k', v'). P k') d"
  by (induction d) auto

lemma dict_get_Some: "map_of d k = Some v \<Longrightarrow> dict_get d k = v"
  by (simp add: dict_get_def)

lemma py_str_ObjectId_not_None: "py_str (PObjectId oid) \<noteq> ascii ''None''"
proof
  assume "py_str (PObjectId oid) = ascii ''None''"
  then have "length (py_str (PObjectId oid)) = length (ascii ''None'')"
    by (rule arg_cong)
  then show False by simp
qed

subsection \<open>\<open>normalize\<close>\<close>

lemma map_of_normalize:
  "map_of (normalize_doc doc) k =
     (if k = ascii ''id'' then Some (PStr (py_str (dict_get doc (ascii ''_id''))))
      else if k = ascii ''_id'' then None else map_of doc k)"
  by (simp add: normalize_doc_def map_of_dict_set map_of_filter_neq)

lemma normalize_doc_fields:
  "map_of (normalize_doc doc) (ascii ''_id'') = None"
  "map_of (normalize_doc doc) (ascii ''id'') = Some (PStr (py_str (dict_get doc (ascii ''_id''))))"
  "k \<noteq> ascii ''_id'' \<Longrightarrow> k \<noteq> ascii ''id'' \<Longrightarrow> map_of (normalize_doc doc) k = map_of doc k"
  by (simp_all add: map_of_normalize)

lemma normalize_other_fields:
  "filter (\<lambda>(k, v). k \<noteq> ascii ''_id'' \<and> k \<noteq> ascii ''id'') (normalize_doc doc)
     = filter (\<lambda>(k, v). k \<noteq> ascii ''_id'' \<and> k \<noteq> ascii ''id'') doc"
proof -
  have "filter (\<lambda>(k, v). k \<noteq> ascii ''_id'' \<and> k \<noteq> ascii ''id'') (normalize_doc doc)
      = filter (\<lambda>(k, v). k \<noteq> ascii ''_id'' \<and> k \<noteq> ascii ''id'')
          (filter (\<lambda>(k, v). k \<noteq> ascii ''_id'') doc)"
    unfolding normalize_doc_def Let_def
    by (rule filter_dict_set) simp
  also have "\<dots> = filter (\<lambda>(k, v). k \<noteq> ascii ''_id'' \<and> k \<noteq> ascii ''id'') doc"
    by (induction doc) auto
  finally show ?thesis .
qed

subsection \<open>The two inquiry handlers, by outcome of the store call\<close>

lemma create_inquiry_ok:
  "create_doc (ascii ''inquiry'') inquiry (store_state w) = (Inr v, s) \<Longrightarrow>
   create_inquiry create_doc inquiry w =
     (Inr [(ascii ''status'', PStr (ascii ''ok'')), (ascii ''id'', v)], w\<lparr>store_state := s\<rparr>)"
  by (simp add: create_inquiry_def)

lemma create_inquiry_fail:
  "create_doc (ascii ''inquiry'') inquiry (store_state w) = (Inl e, s) \<Longrightarrow>
   create_inquiry create_doc inquiry w = (Inl (HTTPException 500 (exn_str e)), w\<lparr>store_state := s\<rparr>)"
  by (simp add: create_inquiry_def)

lemma list_inquiries_ok:
  "get_docs (ascii ''inquiry'') (case q of None \<Rightarrow> 10 | Some n \<Rightarrow> n) (store_state w) = (Inr docs, s)
   \<Longrightarrow> list_inquiries get_docs q w = (Inr (map normalize_doc docs), w\<lparr>store_state := s\<rparr>)"
  by (simp add: list_inquiries_def)

lemma list_inquiries_fail:
  "get_docs (ascii ''inquiry'') (case q of None \<Rightarrow> 10 | Some n \<Rightarrow> n) (store_state w) = (Inl e, s)
   \<Longrightarrow> list_inquiries get_docs q w = (Inl (HTTPException 500 (exn_str e)), w\<lparr>store_state := s\<rparr>)"
  by (simp add: list_inquiries_def)

lemma respond_HTTPException:
  "respond (Inl (HTTPException code detail)) = \<lparr>status_code = code, body = JDetail detail\<rparr>"
  by (simp add: respond_def)

lemma get_documents_length:
  "get_documents c n s = (Inr docs, s') \<Longrightarrow> length docs \<le> nat n"
  by (auto simp: get_documents_def split: option.splits)

subsection \<open>No route touches the catalog\<close>

lemma route_snd: "snd (route enc p) = snd p"
  by (simp add: route_def split: prod.splits)

lemma handle_menu_data: "menu_data (snd (handle Inq create_doc get_docs rq w)) = menu_data w"
proof (cases rq)
  case (POST_api_inquiries payload)
  then show ?thesis
    by (cases "Inq payload")
       (auto simp: route_snd create_inquiry_def split: prod.splits sum.splits)
next
  case (GET_api_inquiries q)
  then show ?thesis
    by (auto simp: route_snd list_inquiries_def Let_def split: prod.splits sum.splits)
qed (simp_all add: route_snd read_root_def hello_def test_database_def get_menu_def Let_def)

lemma serve_menu_data:
  "serve Inq create_doc get_docs rqs w = (resps, w') \<Longrightarrow> menu_data w' = menu_data w"
proof (induction rqs arbitrary: w resps w')
  case Nil
  then show ?case by simp
next
  case (Cons rq rqs)
  obtain r1 w1 where h: "handle Inq create_doc get_docs rq w = (r1, w1)"
    by (cases "handle Inq create_doc get_docs rq w")
  obtain rs w2 where s: "serve Inq create_doc get_docs rqs w1 = (rs, w2)"
    by (cases "serve Inq create_doc get_docs rqs w1")
  from Cons.prems h s have "w' = w2" by simp
  moreover from Cons.IH [OF s] have "menu_data w2 = menu_data w1" .
  moreover from handle_menu_data [of Inq create_doc get_docs rq w] h
  have "menu_data w1 = menu_data w" by simp
  ultimately show ?case by simp
qed

lemma handle_GET_api_menu:
  "handle Inq create_doc get_docs GET_api_menu w
     = (\<lparr>status_code = 200, body = JMenu (menu_data w)\<rparr>, w)"
  by (simp add: route_def get_menu_def respond_def)

subsection \<open>The \<open>database\<close> field of the diagnostic route, case by case\<close>

lemma handle_GET_test:
  "\<exists>r. handle Inq create_doc get_docs GET_test w = (\<lparr>status_code = 200, body = JTest r\<rparr>, w)
       \<and> test_database w = (Inr r, w)
       \<and> database r = database (except_clauses (try_block (database_module w) response0))
       \<and> database_url r = PStr (if truthy (getenv (environ w) (ascii ''DATABASE_URL''))
                  then CHECK_MARK @ ascii '' Set'' else CROSS_MARK @ ascii '' Not Set'')
       \<and> database_name r = PStr (if truthy (getenv (environ w) (ascii ''DATABASE_NAME''))
                  then CHECK_MARK @ ascii '' Set'' else CROSS_MARK @ ascii '' Not Set'')"
  by (simp add: route_def test_database_def respond_def Let_def)

lemma database_ImportError:
  "database (except_clauses (try_block (Inl (ImportError m)) response0))
     = CROSS_MARK @ ascii '' Database module not found (run enable-database first)''"
  by (simp add: try_block_def except_clauses_def)

lemma database_Exception:
  "database (except_clauses (try_block (Inl (Exception m)) response0))
     = CROSS_MARK @ ascii '' Error: '' @ take 50 m"
  by (simp add: try_block_def except_clauses_def)

lemma database_None:
  "database (except_clauses (try_block (Inr None) response0))
     = WARNING_SIGN @ ascii ''  Available but not initialized''"
  by (simp add: try_block_def except_clauses_def)

lemma database_name_raises:
  "name_attr db = Some (Inl e) \<Longrightarrow>
   database (except_clauses (try_block (Inr (Some db)) response0))
     = (case e of
          ImportError m \<Rightarrow> CROSS_MARK @ ascii '' Database module not found (run enable-database first)''
        | Exception m \<Rightarrow> CROSS_MARK @ ascii '' Error: '' @ take 50 m)"
  by (cases e) (simp_all add: try_block_def except_clauses_def)

lemma database_list_raises:
  "\<forall>e'. name_attr db \<noteq> Some (Inl e') \<Longrightarrow> list_collection_names db = Inl e \<Longrightarrow>
   database (except_clauses (try_block (Inr (Some db)) response0))
     = WARNING_SIGN @ ascii ''  Connected but Error: '' @ take 50 (exn_str e)"
  by (cases "name_attr db")
     (auto simp: try_block_def except_clauses_def Let_def split: option.splits sum.splits)

section \<open>The claims\<close>

subsection \<open>Creating an inquiry\<close>

text \<open>
  Claim C1. For a payload that passes validation and a call of \<open>create_document\<close>
  that succeeds, \<open>POST /api/inquiries\<close> answers 200 with the object
  \<open>{"status": "ok", "id": t}\<close>, where \<open>t\<close> is a non-empty string: the string form
  of the identifier the store assigned to the document it has just inserted. The handler
  itself hands on, unchanged, whatever \<open>create_document\<close> returned, for every
  \<open>create_document\<close>.
\<close>

theorem create_inquiry_returns_normalized_id:
  "(create_doc (ascii ''inquiry'') inquiry (store_state w) = (Inr v, s) \<longrightarrow>
      create_inquiry create_doc inquiry w =
        (Inr [(ascii ''status'', PStr (ascii ''ok'')), (ascii ''id'', v)], w\<lparr>store_state := s\<rparr>))
   \<and> (Inq payload = Inr inq
        \<and> create_document (ascii ''inquiry'') inq (store_state u) = (Inr x, z) \<longrightarrow>
      (\<exists>t. t \<noteq> [] \<and> t = py_str (PObjectId (next_id (store_state u)))
         \<and> create_inquiry create_document inq u =
             (Inr [(ascii ''status'', PStr (ascii ''ok'')), (ascii ''id'', PStr t)],
              u\<lparr>store_state := z\<rparr>)
         \<and> handle Inq create_document get_docs (POST_api_inquiries payload) u =
             (\<lparr>status_code = 200,
               body = JObject [(ascii ''status'', PStr (ascii ''ok'')), (ascii ''id'', PStr t)]\<rparr>,
              u\<lparr>store_state := z\<rparr>)
         \<and> documents z = documents (store_state u)
               @ [(ascii ''inquiry'',
                   dict_set inq (ascii ''_id'') (PObjectId (next_id (store_state u))))]
         \<and> map_of (snd (last (documents z))) (ascii ''_id'')
               = Some (PObjectId (next_id (store_state u)))))"
proof (intro conjI impI)
  assume "create_doc (ascii ''inquiry'') inquiry (store_state w) = (Inr v, s)"
  then show "create_inquiry create_doc inquiry w =
        (Inr [(ascii ''status'', PStr (ascii ''ok'')), (ascii ''id'', v)], w\<lparr>store_state := s\<rparr>)"
    by (rule create_inquiry_ok)
next
  assume a: "Inq payload = Inr inq
        \<and> create_document (ascii ''inquiry'') inq (store_state u) = (Inr x, z)"
  let ?oid = "PObjectId (next_id (store_state u))"
  from a have ok: "create_document (ascii ''inquiry'') inq (store_state u) = (Inr x, z)"
    by simp
  then have x: "x = PStr (py_str ?oid)"
    and z: "z = (store_state u)\<lparr>next_id := next_id (store_state u) + 1,
                 documents := documents (store_state u)
                    @ [(ascii ''inquiry'', dict_set inq (ascii ''_id'') ?oid)]\<rparr>"
    by (auto simp: create_document_def Let_def split: option.splits)
  have ne: "py_str ?oid \<noteq> []"
  proof
    assume "py_str ?oid = []"
    then have "length (py_str ?oid) = 0" by simp
    then show False by simp
  qed
  have c: "create_inquiry create_document inq u =
             (Inr [(ascii ''status'', PStr (ascii ''ok'')), (ascii ''id'', PStr (py_str ?oid))],
              u\<lparr>store_state := z\<rparr>)"
    using create_inquiry_ok [of create_document inq u x z, OF ok] by (simp only: x)
  have "handle Inq create_document get_docs (POST_api_inquiries payload) u
          = route JObject (create_inquiry create_document inq u)"
    using a by simp
  then have h: "handle Inq create_document get_docs (POST_api_inquiries payload) u =
             (\<lparr>status_code = 200,
               body = JObject [(ascii ''status'', PStr (ascii ''ok'')),
                               (ascii ''id'', PStr (py_str ?oid))]\<rparr>,
              u\<lparr>store_state := z\<rparr>)"
    by (simp add: c route_def respond_def)
  have d: "documents z = documents (store_state u)
               @ [(ascii ''inquiry'', dict_set inq (ascii ''_id'') ?oid)]"
    by (simp add: z)
  have m: "map_of (snd (last (documents z))) (ascii ''_id'') = Some ?oid"
    by (simp add: d map_of_dict_set)
  from ne c h d m
  show "\<exists>t. t \<noteq> [] \<and> t = py_str ?oid
         \<and> create_inquiry create_document inq u =
             (Inr [(ascii ''status'', PStr (ascii ''ok'')), (ascii ''id'', PStr t)],
              u\<lparr>store_state := z\<rparr>)
         \<and> handle Inq create_document get_docs (POST_api_inquiries payload) u =
             (\<lparr>status_code = 200,
               body = JObject [(ascii ''status'', PStr (ascii ''ok'')), (ascii ''id'', PStr t)]\<rparr>,
              u\<lparr>store_state := z\<rparr>)
         \<and> documents z = documents (store_state u)
               @ [(ascii ''inquiry'', dict_set inq (ascii ''_id'') ?oid)]
         \<and> map_of (snd (last (documents z))) (ascii ''_id'') = Some ?oid"
    by blast
qed

theorem create_inquiry_returns_normalized_id_witness:
  "Inquiry ada_payload = Inr ada_payload
   \<and> create_document (ascii ''inquiry'') ada_payload
       (store_state (start empty_store (Inr None) Map.empty))
     = (Inr (PStr (ascii ''000000000000000000000000'')), one_inquiry_store)
   \<and> create_inquiry create_document ada_payload (start empty_store (Inr None) Map.empty)
     = (Inr [(ascii ''status'', PStr (ascii ''ok'')),
             (ascii ''id'', PStr (ascii ''000000000000000000000000''))],
        (start empty_store (Inr None) Map.empty)\<lparr>store_state := one_inquiry_store\<rparr>)
   \<and> handle Inquiry create_document get_documents (POST_api_inquiries ada_payload)
        (start empty_store (Inr None) Map.empty)
     = (\<lparr>status_code = 200,
          body = JObject [(ascii ''status'', PStr (ascii ''ok'')),
                          (ascii ''id'', PStr (ascii ''000000000000000000000000''))]\<rparr>,
        (start empty_store (Inr None) Map.empty)\<lparr>store_state := one_inquiry_store\<rparr>)
   \<and> map_of (snd (last (documents one_inquiry_store))) (ascii ''_id'') = Some (PObjectId 0)"
proof -
  have p: "py_str (PObjectId 0) = ascii ''000000000000000000000000''"
    by code_simp
  have n: "next_id (store_state (start empty_store (Inr None) Map.empty)) = 0"
    by (simp add: start_def empty_store_def)
  have v: "Inquiry ada_payload = Inr ada_payload"
    by (simp add: Inquiry_def inquiry_fields_def ada_payload_def dict_get_def)
  have h: "create_document (ascii ''inquiry'') ada_payload
             (store_state (start empty_store (Inr None) Map.empty))
           = (Inr (PStr (ascii ''000000000000000000000000'')), one_inquiry_store)"
    by (simp add: create_document_def start_def empty_store_def one_inquiry_store_def Let_def
          p [symmetric])
  from create_inquiry_returns_normalized_id
         [of create_document ada_payload "start empty_store (Inr None) Map.empty"
             "PStr (ascii ''000000000000000000000000'')" one_inquiry_store
             Inquiry ada_payload ada_payload "start empty_store (Inr None) Map.empty"
             "PStr (ascii ''000000000000000000000000'')" one_inquiry_store get_documents]
       v h
  have "create_inquiry create_document ada_payload (start empty_store (Inr None) Map.empty)
     = (Inr [(ascii ''status'', PStr (ascii ''ok'')),
             (ascii ''id'', PStr (py_str (PObjectId 0)))],
        (start empty_store (Inr None) Map.empty)\<lparr>store_state := one_inquiry_store\<rparr>)"
    and "handle Inquiry create_document get_documents (POST_api_inquiries ada_payload)
        (start empty_store (Inr None) Map.empty)
     = (\<lparr>status_code = 200,
          body = JObject [(ascii ''status'', PStr (ascii ''ok'')),
                          (ascii ''id'', PStr (py_str (PObjectId 0)))]\<rparr>,
        (start empty_store (Inr None) Map.empty)\<lparr>store_state := one_inquiry_store\<rparr>)"
    and "map_of (snd (last (documents one_inquiry_store))) (ascii ''_id'') = Some (PObjectId 0)"
    unfolding n by blast+
  with v h show ?thesis
    unfolding p by blast
qed

text \<open>
  Claim C5. When the body of \<open>POST /api/inquiries\<close> fails validation against the
  \<open>Inquiry\<close> schema, the answer is 422 and the process state, the store included, is
  what it was: whatever \<open>create_document\<close> would do, it is not run.
\<close>

theorem invalid_inquiry_rejected:
  "Inq payload = Inl errors \<Longrightarrow>
   handle Inq create_doc get_docs (POST_api_inquiries payload) w
     = (\<lparr>status_code = 422, body = JValidation errors\<rparr>, w)"
  by simp

theorem invalid_inquiry_rejected_witness:
  "Inquiry [(ascii ''name'', PStr (ascii ''Ada'')), (ascii ''contact'', PInt 5)]
     = Inl [ascii ''contact'', ascii ''message'']
   \<and> handle Inquiry create_document get_documents
        (POST_api_inquiries [(ascii ''name'', PStr (ascii ''Ada'')), (ascii ''contact'', PInt 5)])
        (start empty_store (Inr None) Map.empty)
     = (\<lparr>status_code = 422, body = JValidation [ascii ''contact'', ascii ''message'']\<rparr>,
        start empty_store (Inr None) Map.empty)"
proof -
  have h: "Inquiry [(ascii ''name'', PStr (ascii ''Ada'')), (ascii ''contact'', PInt 5)]
     = Inl [ascii ''contact'', ascii ''message'']"
    by (simp add: Inquiry_def inquiry_fields_def)
  from invalid_inquiry_rejected
         [of Inquiry "[(ascii ''name'', PStr (ascii ''Ada'')), (ascii ''contact'', PInt 5)]"
             "[ascii ''contact'', ascii ''message'']", OF h] h show ?thesis
    by blast
qed

subsection \<open>Listing inquiries\<close>

text \<open>
  Claim C2. When \<open>get_documents\<close> returns a sequence of documents,
  \<open>list_inquiries\<close> returns a sequence of the same length and order in which every
  record has no \<open>_id\<close> field, has an \<open>id\<close> field holding \<open>str\<close> of the document's
  \<open>_id\<close>, and has every field other than \<open>_id\<close> and \<open>id\<close> with the value and at
  the position it had in the document.
\<close>

theorem list_inquiries_normalizes:
  assumes "get_docs (ascii ''inquiry'') (case q of None \<Rightarrow> 10 | Some n \<Rightarrow> n) (store_state w) = (Inr docs, s)"
  shows "\<exists>rs. fst (list_inquiries get_docs q w) = Inr rs \<and> length rs = length docs \<and>
           (\<forall>i < length docs.
              map_of (rs ! i) (ascii ''_id'') = None \<and>
              map_of (rs ! i) (ascii ''id'') = Some (PStr (py_str (dict_get (docs ! i) (ascii ''_id'')))) \<and>
              (\<forall>v. map_of (docs ! i) (ascii ''_id'') = Some v \<longrightarrow>
                   map_of (rs ! i) (ascii ''id'') = Some (PStr (py_str v))) \<and>
              (\<forall>k. k \<noteq> ascii ''_id'' \<and> k \<noteq> ascii ''id'' \<longrightarrow> map_of (rs ! i) k = map_of (docs ! i) k) \<and>
              filter (\<lambda>(k, v). k \<noteq> ascii ''_id'' \<and> k \<noteq> ascii ''id'') (rs ! i)
                = filter (\<lambda>(k, v). k \<noteq> ascii ''_id'' \<and> k \<noteq> ascii ''id'') (docs ! i))"
proof (intro exI conjI allI impI)
  show "fst (list_inquiries get_docs q w) = Inr (map normalize_doc docs)"
    using assms by (simp add: list_inquiries_ok)
  show "length (map normalize_doc docs) = length docs"
    by simp
next
  fix i assume i: "i < length docs"
  then have nth: "map normalize_doc docs ! i = normalize_doc (docs ! i)"
    by simp
  show "map_of (map normalize_doc docs ! i) (ascii ''_id'') = None"
    unfolding nth by (rule normalize_doc_fields)
  show "map_of (map normalize_doc docs ! i) (ascii ''id'')
          = Some (PStr (py_str (dict_get (docs ! i) (ascii ''_id''))))"
    unfolding nth by (rule normalize_doc_fields)
  show "filter (\<lambda>(k, v). k \<noteq> ascii ''_id'' \<and> k \<noteq> ascii ''id'') (map normalize_doc docs ! i)
          = filter (\<lambda>(k, v). k \<noteq> ascii ''_id'' \<and> k \<noteq> ascii ''id'') (docs ! i)"
    unfolding nth by (rule normalize_other_fields)
next
  fix i v assume i: "i < length docs" and v: "map_of (docs ! i) (ascii ''_id'') = Some v"
  from i have nth: "map normalize_doc docs ! i = normalize_doc (docs ! i)"
    by simp
  show "map_of (map normalize_doc docs ! i) (ascii ''id'') = Some (PStr (py_str v))"
    unfolding nth normalize_doc_fields(2) dict_get_Some [OF v] ..
next
  fix i k assume i: "i < length docs" and k: "k \<noteq> ascii ''_id'' \<and> k \<noteq> ascii ''id''"
  from i have nth: "map normalize_doc docs ! i = normalize_doc (docs ! i)"
    by simp
  show "map_of (map normalize_doc docs ! i) k = map_of (docs ! i) k"
    unfolding nth using k by (simp add: normalize_doc_fields(3))
qed

theorem list_inquiries_normalizes_witness:
  "get_documents (ascii ''inquiry'') (case Some 1 of None \<Rightarrow> 10 | Some n \<Rightarrow> n)
      (store_state (start one_inquiry_store (Inr None) Map.empty))
     = (Inr [dict_set ada_payload (ascii ''_id'') (PObjectId 0)], one_inquiry_store)
   \<and> (\<exists>rs. fst (list_inquiries get_documents (Some 1) (start one_inquiry_store (Inr None) Map.empty)) = Inr rs
         \<and> length rs = 1
         \<and> map_of (rs ! 0) (ascii ''_id'') = None
         \<and> map_of (rs ! 0) (ascii ''id'') = Some (PStr (ascii ''000000000000000000000000''))
         \<and> map_of (rs ! 0) (ascii ''name'') = Some (PStr (ascii ''Ada'')))"
proof -
  have h: "get_documents (ascii ''inquiry'') (case Some 1 of None \<Rightarrow> 10 | Some n \<Rightarrow> n)
      (store_state (start one_inquiry_store (Inr None) Map.empty))
     = (Inr [dict_set ada_payload (ascii ''_id'') (PObjectId 0)], one_inquiry_store)"
    by (simp add: get_documents_def create_document_def start_def empty_store_def
          one_inquiry_store_def Let_def)
  have d: "map_of (dict_set ada_payload (ascii ''_id'') (PObjectId 0)) (ascii ''name'')
             = Some (PStr (ascii ''Ada''))"
          "dict_get (dict_set ada_payload (ascii ''_id'') (PObjectId 0)) (ascii ''_id'') = PObjectId 0"
    by (simp_all add: ada_payload_def dict_get_def)
  have p: "py_str (PObjectId 0) = ascii ''000000000000000000000000''"
    by code_simp
  from list_inquiries_normalizes
         [of get_documents "Some 1" "start one_inquiry_store (Inr None) Map.empty"
             "[dict_set ada_payload (ascii ''_id'') (PObjectId 0)]" one_inquiry_store, OF h]
  obtain rs where
    "fst (list_inquiries get_documents (Some 1) (start one_inquiry_store (Inr None) Map.empty)) = Inr rs"
    "length rs = 1"
    "map_of (rs ! 0) (ascii ''_id'') = None"
    "map_of (rs ! 0) (ascii ''id'') = Some (PStr (py_str (PObjectId 0)))"
    "map_of (rs ! 0) (ascii ''name'') = Some (PStr (ascii ''Ada''))"
    by (auto simp: d)
  with h p show ?thesis by auto
qed

text \<open>
  Claim C9. A document returned by \<open>get_documents\<close> that has no \<open>_id\<close> key, or
  has \<open>None\<close> under it, still gives a record whose \<open>id\<close> is the string
  \<open>None\<close>: a non-empty string, and not the string form of any \<open>ObjectId\<close>.
\<close>

theorem list_inquiries_missing_id:
  assumes "get_docs (ascii ''inquiry'') (case q of None \<Rightarrow> 10 | Some n \<Rightarrow> n) (store_state w) = (Inr docs, s)"
    and "i < length docs"
    and "map_of (docs ! i) (ascii ''_id'') = None \<or> map_of (docs ! i) (ascii ''_id'') = Some PNone"
  shows "\<exists>rs. fst (list_inquiries get_docs q w) = Inr rs \<and> i < length rs \<and>
           map_of (rs ! i) (ascii ''id'') = Some (PStr (ascii ''None'')) \<and>
           ascii ''None'' \<noteq> [] \<and>
           (\<forall>oid. py_str (PObjectId oid) \<noteq> ascii ''None'')"
proof (intro exI conjI allI)
  show "fst (list_inquiries get_docs q w) = Inr (map normalize_doc docs)"
    using assms(1) by (simp add: list_inquiries_ok)
  show "i < length (map normalize_doc docs)"
    using assms(2) by simp
  have "dict_get (docs ! i) (ascii ''_id'') = PNone"
    using assms(3) by (auto simp: dict_get_def)
  then show "map_of (map normalize_doc docs ! i) (ascii ''id'') = Some (PStr (ascii ''None''))"
    using assms(2) by (simp add: normalize_doc_fields(2))
  show "ascii ''None'' \<noteq> []"
    by simp
  show "py_str (PObjectId oid) \<noteq> ascii ''None''" for oid
    by (rule py_str_ObjectId_not_None)
qed

theorem list_inquiries_missing_id_witness:
  "get_documents (ascii ''inquiry'') (case None of None \<Rightarrow> 10 | Some n \<Rightarrow> n)
      (store_state (start legacy_store (Inr None) Map.empty))
     = (Inr [ada_payload], legacy_store)
   \<and> (0::nat) < length [ada_payload]
   \<and> map_of ([ada_payload] ! 0) (ascii ''_id'') = None
   \<and> (\<exists>rs. fst (list_inquiries get_documents None (start legacy_store (Inr None) Map.empty)) = Inr rs
         \<and> map_of (rs ! 0) (ascii ''id'') = Some (PStr (ascii ''None'')))"
proof -
  have h: "get_documents (ascii ''inquiry'') (case None of None \<Rightarrow> 10 | Some n \<Rightarrow> n)
      (store_state (start legacy_store (Inr None) Map.empty))
     = (Inr [ada_payload], legacy_store)"
    by (simp add: get_documents_def start_def legacy_store_def)
  have i: "(0::nat) < length [ada_payload]"
    by simp
  have m: "map_of ([ada_payload] ! 0) (ascii ''_id'') = None"
    by (simp add: ada_payload_def)
  from list_inquiries_missing_id
         [of get_documents None "start legacy_store (Inr None) Map.empty" "[ada_payload]"
             legacy_store 0, OF h i disjI1 [OF m]]
  have "\<exists>rs. fst (list_inquiries get_documents None (start legacy_store (Inr None) Map.empty)) = Inr rs
         \<and> map_of (rs ! 0) (ascii ''id'') = Some (PStr (ascii ''None''))"
    by blast
  with h i m show ?thesis by blast
qed

text \<open>
  Claim C7. Called without \<open>limit\<close>, \<open>list_inquiries\<close> calls \<open>get_documents\<close>
  on the collection \<open>inquiry\<close> with limit 10; with the store adapter of the spec it
  then returns at most 10 records, however many the store holds.
\<close>

theorem list_inquiries_default_limit:
  "list_inquiries get_docs None w =
     (case get_docs (ascii ''inquiry'') 10 (store_state w) of
        (Inr docs, s) \<Rightarrow> (Inr (map normalize_doc docs), w\<lparr>store_state := s\<rparr>)
      | (Inl e, s) \<Rightarrow> (Inl (HTTPException 500 (exn_str e)), w\<lparr>store_state := s\<rparr>))
   \<and> (\<forall>rs. fst (list_inquiries get_documents None w') = Inr rs \<longrightarrow> length rs \<le> 10)"
proof (intro conjI allI impI)
  show "list_inquiries get_docs None w =
     (case get_docs (ascii ''inquiry'') 10 (store_state w) of
        (Inr docs, s) \<Rightarrow> (Inr (map normalize_doc docs), w\<lparr>store_state := s\<rparr>)
      | (Inl e, s) \<Rightarrow> (Inl (HTTPException 500 (exn_str e)), w\<lparr>store_state := s\<rparr>))"
    by (simp add: list_inquiries_def)
next
  fix rs assume r: "fst (list_inquiries get_documents None w') = Inr rs"
  obtain res s where g: "get_documents (ascii ''inquiry'') 10 (store_state w') = (res, s)"
    by (cases "get_documents (ascii ''inquiry'') 10 (store_state w')")
  show "length rs \<le> 10"
  proof (cases res)
    case (Inl e)
    with g r show ?thesis by (simp add: list_inquiries_def)
  next
    case (Inr docs)
    with g r have "rs = map normalize_doc docs" by (simp add: list_inquiries_def)
    moreover from g Inr have "length docs \<le> nat 10"
      by (auto dest: get_documents_length)
    ultimately show ?thesis by simp
  qed
qed

theorem list_inquiries_default_limit_witness:
  "length (documents twelve_store) = 12
   \<and> fst (list_inquiries get_documents None (start twelve_store (Inr None) Map.empty))
       = Inr (replicate 10 (normalize_doc ada_payload))
   \<and> length (replicate 10 (normalize_doc ada_payload)) \<le> 10"
proof -
  have h: "fst (list_inquiries get_documents None (start twelve_store (Inr None) Map.empty))
       = Inr (replicate 10 (normalize_doc ada_payload))"
    by (simp add: list_inquiries_def get_documents_def start_def twelve_store_def)
  have l: "length (documents twelve_store) = 12"
    by (simp add: twelve_store_def)
  from list_inquiries_default_limit
         [of get_documents "start twelve_store (Inr None) Map.empty"
             "start twelve_store (Inr None) Map.empty"] h l
  show ?thesis by blast
qed

text \<open>
  Claim C8. With \<open>limit=0\<close> and a store that is available, the call of
  \<open>get_documents\<close> gives no document, \<open>list_inquiries\<close> returns the empty list and
  the route answers 200 with an empty array.
\<close>

theorem list_inquiries_limit_zero:
  assumes "fault (store_state w) = None"
  shows "list_inquiries get_documents (Some 0) w = (Inr [], w)
         \<and> handle Inq create_doc get_documents (GET_api_inquiries (Some 0)) w
             = (\<lparr>status_code = 200, body = JArray []\<rparr>, w)"
proof -
  have g: "get_documents (ascii ''inquiry'') 0 (store_state w) = (Inr [], store_state w)"
    using assms by (simp add: get_documents_def)
  have l: "list_inquiries get_documents (Some 0) w = (Inr [], w)"
    by (simp add: list_inquiries_def g)
  then show ?thesis
    by (simp add: route_def respond_def)
qed

theorem list_inquiries_limit_zero_witness:
  "fault (store_state (start twelve_store (Inr None) Map.empty)) = None
   \<and> list_inquiries get_documents (Some 0) (start twelve_store (Inr None) Map.empty)
       = (Inr [], start twelve_store (Inr None) Map.empty)
   \<and> handle Inquiry create_document get_documents (GET_api_inquiries (Some 0))
        (start twelve_store (Inr None) Map.empty)
       = (\<lparr>status_code = 200, body = JArray []\<rparr>, start twelve_store (Inr None) Map.empty)"
proof -
  have h: "fault (store_state (start twelve_store (Inr None) Map.empty)) = None"
    by (simp add: start_def twelve_store_def)
  from list_inquiries_limit_zero [OF h] h show ?thesis
    by blast
qed

text \<open>
  Claim C6. When \<open>create_document\<close> or \<open>get_documents\<close> raises, the handler
  raises \<open>HTTPException\<close> with status 500 and \<open>str\<close> of the exception as detail,
  and the route answers 500 with that detail; nothing else leaves the handler.
\<close>

theorem store_failure_gives_500:
  "(Inq payload = Inr inquiry \<and> create_doc (ascii ''inquiry'') inquiry (store_state w) = (Inl e, s) \<longrightarrow>
      fst (create_inquiry create_doc inquiry w) = Inl (HTTPException 500 (exn_str e)) \<and>
      fst (handle Inq create_doc get_docs (POST_api_inquiries payload) w)
        = \<lparr>status_code = 500, body = JDetail (exn_str e)\<rparr>)
   \<and> (get_docs (ascii ''inquiry'') (case q of None \<Rightarrow> 10 | Some n \<Rightarrow> n) (store_state w) = (Inl e, s) \<longrightarrow>
      fst (list_inquiries get_docs q w) = Inl (HTTPException 500 (exn_str e)) \<and>
      fst (handle Inq create_doc get_docs (GET_api_inquiries q) w)
        = \<lparr>status_code = 500, body = JDetail (exn_str e)\<rparr>)"
proof (intro conjI impI)
  assume a: "Inq payload = Inr inquiry \<and> create_doc (ascii ''inquiry'') inquiry (store_state w) = (Inl e, s)"
  then show "fst (create_inquiry create_doc inquiry w) = Inl (HTTPException 500 (exn_str e))"
    by (simp add: create_inquiry_fail)
  from a show "fst (handle Inq create_doc get_docs (POST_api_inquiries payload) w)
        = \<lparr>status_code = 500, body = JDetail (exn_str e)\<rparr>"
    by (simp add: create_inquiry_fail route_def respond_HTTPException)
next
  assume a: "get_docs (ascii ''inquiry'') (case q of None \<Rightarrow> 10 | Some n \<Rightarrow> n) (store_state w) = (Inl e, s)"
  then show "fst (list_inquiries get_docs q w) = Inl (HTTPException 500 (exn_str e))"
    by (simp add: list_inquiries_fail)
  from a show "fst (handle Inq create_doc get_docs (GET_api_inquiries q) w)
        = \<lparr>status_code = 500, body = JDetail (exn_str e)\<rparr>"
    by (simp add: list_inquiries_fail route_def respond_HTTPException)
qed

theorem store_failure_gives_500_witness:
  "Inquiry ada_payload = Inr ada_payload
   \<and> create_document (ascii ''inquiry'') ada_payload
        (store_state (start unconfigured_store (Inr None) Map.empty))
       = (Inl (Exception (ascii ''unavailable'')), unconfigured_store)
   \<and> get_documents (ascii ''inquiry'') (case None of None \<Rightarrow> 10 | Some n \<Rightarrow> n)
        (store_state (start unconfigured_store (Inr None) Map.empty))
       = (Inl (Exception (ascii ''unavailable'')), unconfigured_store)
   \<and> fst (handle Inquiry create_document get_documents (POST_api_inquiries ada_payload)
             (start unconfigured_store (Inr None) Map.empty))
       = \<lparr>status_code = 500, body = JDetail (ascii ''unavailable'')\<rparr>
   \<and> fst (handle Inquiry create_document get_documents (GET_api_inquiries None)
             (start unconfigured_store (Inr None) Map.empty))
       = \<lparr>status_code = 500, body = JDetail (ascii ''unavailable'')\<rparr>"
proof -
  have v: "Inquiry ada_payload = Inr ada_payload"
    by (simp add: Inquiry_def inquiry_fields_def ada_payload_def dict_get_def)
  have c: "create_document (ascii ''inquiry'') ada_payload
        (store_state (start unconfigured_store (Inr None) Map.empty))
       = (Inl (Exception (ascii ''unavailable'')), unconfigured_store)"
    by (simp add: create_document_def start_def unconfigured_store_def)
  have g: "get_documents (ascii ''inquiry'') (case None of None \<Rightarrow> 10 | Some n \<Rightarrow> n)
        (store_state (start unconfigured_store (Inr None) Map.empty))
       = (Inl (Exception (ascii ''unavailable'')), unconfigured_store)"
    by (simp add: get_documents_def start_def unconfigured_store_def)
  from store_failure_gives_500
         [of Inquiry ada_payload ada_payload create_document
             "start unconfigured_store (Inr None) Map.empty" "Exception (ascii ''unavailable'')"
             unconfigured_store get_documents None] v c g
  show ?thesis by simp
qed

subsection \<open>The menu\<close>

text \<open>
  Claim C3. After any sequence of requests to a process started with the catalog of the
  source, \<open>GET /api/menu\<close> answers 200 with \<open>MENU_DATA\<close> and leaves the whole
  process state as it was; two calls in a row give the same response twice.
\<close>

theorem get_menu_static:
  assumes "menu_data w = MENU_DATA"
  shows "handle Inq create_doc get_docs GET_api_menu (snd (serve Inq create_doc get_docs rqs w))
           = (\<lparr>status_code = 200, body = JMenu MENU_DATA\<rparr>, snd (serve Inq create_doc get_docs rqs w))
         \<and> serve Inq create_doc get_docs [GET_api_menu, GET_api_menu]
               (snd (serve Inq create_doc get_docs rqs w))
           = ([\<lparr>status_code = 200, body = JMenu MENU_DATA\<rparr>,
               \<lparr>status_code = 200, body = JMenu MENU_DATA\<rparr>],
              snd (serve Inq create_doc get_docs rqs w))"
proof -
  obtain resps w' where s: "serve Inq create_doc get_docs rqs w = (resps, w')"
    by (cases "serve Inq create_doc get_docs rqs w")
  have "menu_data w' = MENU_DATA"
    using serve_menu_data [OF s] assms by simp
  then have m: "handle Inq create_doc get_docs GET_api_menu w'
           = (\<lparr>status_code = 200, body = JMenu MENU_DATA\<rparr>, w')"
    by (simp only: handle_GET_api_menu)
  then show ?thesis
    by (simp only: s snd_conv serve.simps prod.case simp_thms)
qed

theorem get_menu_static_witness:
  "menu_data (start empty_store (Inr None) Map.empty) = MENU_DATA
   \<and> handle Inquiry create_document get_documents GET_api_menu
       (snd (serve Inquiry create_document get_documents
               [GET_api_menu, POST_api_inquiries ada_payload, GET_api_inquiries None, GET_test]
               (start empty_store (Inr None) Map.empty)))
     = (\<lparr>status_code = 200, body = JMenu MENU_DATA\<rparr>,
        snd (serve Inquiry create_document get_documents
               [GET_api_menu, POST_api_inquiries ada_payload, GET_api_inquiries None, GET_test]
               (start empty_store (Inr None) Map.empty)))"
proof -
  have h: "menu_data (start empty_store (Inr None) Map.empty) = MENU_DATA"
    by (simp add: start_def)
  from get_menu_static [OF h] h show ?thesis
    by blast
qed

subsection \<open>The diagnostic route\<close>

text \<open>
  Claim C4. \<open>GET /test\<close> never fails: whatever the import of the database module
  gives (an \<open>ImportError\<close>, another exception, \<open>None\<close>, a handle whose attribute or
  whose \<open>list_collection_names\<close> raises), \<open>test_database\<close> returns a dictionary,
  the route answers 200 with it and the process state is unchanged; in each failure case
  the field \<open>database\<close> names the failure, with at most the first 50 characters of the
  exception's text.
\<close>

theorem test_database_never_fails:
  "\<exists>r. test_database w = (Inr r, w)
     \<and> handle Inq create_doc get_docs GET_test w = (\<lparr>status_code = 200, body = JTest r\<rparr>, w)
     \<and> (\<forall>m. database_module w = Inl (ImportError m) \<longrightarrow>
           database r = CROSS_MARK @ ascii '' Database module not found (run enable-database first)'')
     \<and> (\<forall>m. database_module w = Inl (Exception m) \<longrightarrow>
           database r = CROSS_MARK @ ascii '' Error: '' @ take 50 m)
     \<and> (database_module w = Inr None \<longrightarrow>
           database r = WARNING_SIGN @ ascii ''  Available but not initialized'')
     \<and> (\<forall>db e. database_module w = Inr (Some db) \<and> name_attr db = Some (Inl e) \<longrightarrow>
           database r =
             (case e of
                ImportError m \<Rightarrow> CROSS_MARK @ ascii '' Database module not found (run enable-database first)''
              | Exception m \<Rightarrow> CROSS_MARK @ ascii '' Error: '' @ take 50 m))
     \<and> (\<forall>db e. database_module w = Inr (Some db) \<and> (\<forall>e'. name_attr db \<noteq> Some (Inl e'))
             \<and> list_collection_names db = Inl e \<longrightarrow>
           database r = WARNING_SIGN @ ascii ''  Connected but Error: '' @ take 50 (exn_str e))"
proof -
  obtain r where r: "handle Inq create_doc get_docs GET_test w = (\<lparr>status_code = 200, body = JTest r\<rparr>, w)"
    and t: "test_database w = (Inr r, w)"
    and d: "database r = database (except_clauses (try_block (database_module w) response0))"
    using handle_GET_test [of Inq create_doc get_docs w] by blast
  show ?thesis
  proof (intro exI [of _ r] conjI allI impI)
    show "test_database w = (Inr r, w)" by (rule t)
    show "handle Inq create_doc get_docs GET_test w = (\<lparr>status_code = 200, body = JTest r\<rparr>, w)"
      by (rule r)
  next
    fix m assume "database_module w = Inl (ImportError m)"
    then show "database r = CROSS_MARK @ ascii '' Database module not found (run enable-database first)''"
      by (simp only: d database_ImportError)
  next
    fix m assume "database_module w = Inl (Exception m)"
    then show "database r = CROSS_MARK @ ascii '' Error: '' @ take 50 m"
      by (simp only: d database_Exception)
  next
    assume "database_module w = Inr None"
    then show "database r = WARNING_SIGN @ ascii ''  Available but not initialized''"
      by (simp only: d database_None)
  next
    fix db e assume "database_module w = Inr (Some db) \<and> name_attr db = Some (Inl e)"
    then show "database r =
             (case e of
                ImportError m \<Rightarrow> CROSS_MARK @ ascii '' Database module not found (run enable-database first)''
              | Exception m \<Rightarrow> CROSS_MARK @ ascii '' Error: '' @ take 50 m)"
      by (simp only: d database_name_raises)
  next
    fix db e assume "database_module w = Inr (Some db) \<and> (\<forall>e'. name_attr db \<noteq> Some (Inl e'))
             \<and> list_collection_names db = Inl e"
    then show "database r = WARNING_SIGN @ ascii ''  Connected but Error: '' @ take 50 (exn_str e)"
      using database_list_raises [of db e] by (simp add: d)
  qed
qed

theorem test_database_never_fails_witness:
  "(\<exists>r. handle Inquiry create_document get_documents GET_test
           (start unconfigured_store (Inr None) Map.empty)
         = (\<lparr>status_code = 200, body = JTest r\<rparr>, start unconfigured_store (Inr None) Map.empty)
       \<and> database r = WARNING_SIGN @ ascii ''  Available but not initialized'')
   \<and> (\<exists>r. handle Inquiry create_document get_documents GET_test
           (start unconfigured_store (Inl (ImportError (ascii ''No module named database''))) Map.empty)
         = (\<lparr>status_code = 200, body = JTest r\<rparr>,
            start unconfigured_store (Inl (ImportError (ascii ''No module named database''))) Map.empty)
       \<and> database r = CROSS_MARK @ ascii '' Database module not found (run enable-database first)'')
   \<and> (\<exists>r. handle Inquiry create_document get_documents GET_test
           (start unconfigured_store (Inr (Some unreachable_db)) Map.empty)
         = (\<lparr>status_code = 200, body = JTest r\<rparr>,
            start unconfigured_store (Inr (Some unreachable_db)) Map.empty)
       \<and> database r = WARNING_SIGN @ ascii ''  Connected but Error: ''
                         @ ascii ''localhost:27017: [Errno 111] Connection refused (c'')"
proof -
  have t: "take 50 (ascii ''localhost:27017: [Errno 111] Connection refused (configured timeouts: 30s)'')
             = ascii ''localhost:27017: [Errno 111] Connection refused (c''"
    by (simp add: ascii_def)
  from test_database_never_fails
         [of "start unconfigured_store (Inr None) Map.empty" Inquiry create_document get_documents]
  have a: "\<exists>r. handle Inquiry create_document get_documents GET_test
           (start unconfigured_store (Inr None) Map.empty)
         = (\<lparr>status_code = 200, body = JTest r\<rparr>, start unconfigured_store (Inr None) Map.empty)
       \<and> database r = WARNING_SIGN @ ascii ''  Available but not initialized''"
    by (auto simp: start_def)
  from test_database_never_fails
         [of "start unconfigured_store (Inl (ImportError (ascii ''No module named database''))) Map.empty"
             Inquiry create_document get_documents]
  have b: "\<exists>r. handle Inquiry create_document get_documents GET_test
           (start unconfigured_store (Inl (ImportError (ascii ''No module named database''))) Map.empty)
         = (\<lparr>status_code = 200, body = JTest r\<rparr>,
            start unconfigured_store (Inl (ImportError (ascii ''No module named database''))) Map.empty)
       \<and> database r = CROSS_MARK @ ascii '' Database module not found (run enable-database first)''"
    by (auto simp: start_def)
  from test_database_never_fails
         [of "start unconfigured_store (Inr (Some unreachable_db)) Map.empty"
             Inquiry create_document get_documents]
  have c: "\<exists>r. handle Inquiry create_document get_documents GET_test
           (start unconfigured_store (Inr (Some unreachable_db)) Map.empty)
         = (\<lparr>status_code = 200, body = JTest r\<rparr>,
            start unconfigured_store (Inr (Some unreachable_db)) Map.empty)
       \<and> database r = WARNING_SIGN @ ascii ''  Connected but Error: ''
                         @ ascii ''localhost:27017: [Errno 111] Connection refused (c''"
    by (auto simp: start_def unreachable_db_def t)
  from a b c show ?thesis by blast
qed

text \<open>
  Claim C10, as amended. In every response of \<open>test_database\<close> the fields
  \<open>database_url\<close> and \<open>database_name\<close> depend on the environment alone, whatever
  was assigned to them earlier in the handler: each is the text with the check mark when
  its variable (\<open>DATABASE_URL\<close>, \<open>DATABASE_NAME\<close>) is set to a non-empty value, and
  the text with the cross mark when the variable is absent or empty.
\<close>

theorem test_database_env_fields:
  "\<exists>r. fst (test_database w) = Inr r
     \<and> database_url r =
         PStr (case environ w (ascii ''DATABASE_URL'') of
                 None \<Rightarrow> CROSS_MARK @ ascii '' Not Set''
               | Some v \<Rightarrow> if v = [] then CROSS_MARK @ ascii '' Not Set''
                           else CHECK_MARK @ ascii '' Set'')
     \<and> database_name r =
         PStr (case environ w (ascii ''DATABASE_NAME'') of
                 None \<Rightarrow> CROSS_MARK @ ascii '' Not Set''
               | Some v \<Rightarrow> if v = [] then CROSS_MARK @ ascii '' Not Set''
                           else CHECK_MARK @ ascii '' Set'')"
  by (simp add: test_database_def Let_def getenv_def split: option.splits)

theorem test_database_env_fields_witness:
  "database_name (except_clauses (try_block (Inr (Some unreachable_db)) response0))
     = PStr (ascii ''choppinzskys'')
   \<and> (\<exists>r. fst (test_database
                 (start () (Inr (Some unreachable_db))
                    [ascii ''DATABASE_URL'' \<mapsto> ascii ''mongodb://localhost:27017'']))
           = Inr r
         \<and> database_url r = PStr (CHECK_MARK @ ascii '' Set'')
         \<and> database_name r = PStr (CROSS_MARK @ ascii '' Not Set''))"
proof -
  have b: "database_name (except_clauses (try_block (Inr (Some unreachable_db)) response0))
     = PStr (ascii ''choppinzskys'')"
    by (simp add: try_block_def except_clauses_def unreachable_db_def response0_def)
  from test_database_env_fields
         [of "start () (Inr (Some unreachable_db))
                [ascii ''DATABASE_URL'' \<mapsto> ascii ''mongodb://localhost:27017'']"]
  have "\<exists>r. fst (test_database
                 (start () (Inr (Some unreachable_db))
                    [ascii ''DATABASE_URL'' \<mapsto> ascii ''mongodb://localhost:27017'']))
           = Inr r
         \<and> database_url r = PStr (CHECK_MARK @ ascii '' Set'')
         \<and> database_name r = PStr (CROSS_MARK @ ascii '' Not Set'')"
    by (simp add: start_def)
  with b show ?thesis by blast
qed

text \<open>
  The claim as written lets the presence of the variable decide. A variable that is
  present with the empty string as its value is reported as not set.
\<close>

theorem test_database_env_fields_counterexample:
  "[ascii ''DATABASE_URL'' \<mapsto> []] (ascii ''DATABASE_URL'') = Some []
   \<and> fst (test_database (start () (Inr None) [ascii ''DATABASE_URL'' \<mapsto> []]))
     = Inr \<lparr>backend = CHECK_MARK @ ascii '' Running'',
            database = WARNING_SIGN @ ascii ''  Available but not initialized'',
            database_url = PStr (CROSS_MARK @ ascii '' Not Set''),
            database_name = PStr (CROSS_MARK @ ascii '' Not Set''),
            connection_status = ascii ''Not Connected'',
            collections = []\<rparr>"
  by (simp add: test_database_def start_def try_block_def except_clauses_def response0_def getenv_def)

end
